theory Spec2Isabelle
  imports Complex_Main "HOL-Library.Word" "HOL-Library.Signed_Division"
begin

section \<open>The news search front-end (main.go)\<close>

text \<open>
  A shallow embedding of \<^verbatim>\<open>main.go\<close>: the pagination model \<^verbatim>\<open>Search\<close> with its three
  methods, and \<^verbatim>\<open>searchHandler\<close> as a function from the request and the behaviour of
  the upstream service to the response written, the upstream calls issued and the
  successive values of the \<^verbatim>\<open>Search\<close> value.

  Go's \<^verbatim>\<open>int\<close> is taken as the 64-bit two's complement integer of the usual targets
  (amd64, arm64): \<open>+\<close> and \<open>-\<close> wrap around, comparison is signed, \<open>/\<close> truncates
  towards zero.
\<close>

subsection \<open>Data model\<close>

type_synonym int64 = "64 word"

typedecl Time \<comment> \<open>\<^verbatim>\<open>time.Time\<close>, opaque here\<close>

record Source =
  ID :: "string option" \<comment> \<open>\<^verbatim>\<open>interface{}\<close>: absent or some JSON value, kept as its text\<close>
  Name :: string

record Article =
  Source :: Source
  Author :: string
  Title :: string
  Description :: string
  URL :: string
  URLToImage :: string
  PublishedAt :: Time
  Content :: string

record Results =
  Status :: string
  TotalResults :: int64
  Articles :: "Article list"

record Search =
  SearchKey :: string
  NextPage :: int64
  TotalPages :: int64
  Results :: Results

record NewsAPIError =
  ErrStatus :: string
  Code :: string
  Message :: string

text \<open>The zero values \<^verbatim>\<open>Results{}\<close> and \<^verbatim>\<open>Search{}\<close>.\<close>

definition zero_Results :: Results where
  "zero_Results = \<lparr>Status = [], TotalResults = 0, Articles = []\<rparr>"

definition zero_Search :: Search where
  "zero_Search = \<lparr>SearchKey = [], NextPage = 0, TotalPages = 0, Results = zero_Results\<rparr>"

subsection \<open>Pagination methods\<close>

text \<open>\<^verbatim>\<open>func (s *Search) IsLastPage() bool { return s.NextPage >= s.TotalPages }\<close>\<close>

definition IsLastPage :: "Search \<Rightarrow> bool" where
  "IsLastPage s = word_sle (TotalPages s) (NextPage s)"

text \<open>
  \<^verbatim>\<open>func (s *Search) CurrentPage() int {
      if s.NextPage == 1 { return s.NextPage }
      return s.NextPage - 1 }\<close>
\<close>

definition CurrentPage :: "Search \<Rightarrow> int64" where
  "CurrentPage s = (if NextPage s = 1 then NextPage s else NextPage s - 1)"

text \<open>\<^verbatim>\<open>func (s *Search) PreviousPage() int { return s.CurrentPage() - 1 }\<close>\<close>

definition PreviousPage :: "Search \<Rightarrow> int64" where
  "PreviousPage s = CurrentPage s - 1"

subsection \<open>Library functions the handler calls\<close>

text \<open>
  \<^verbatim>\<open>strconv.Atoi\<close>: an optional sign \<open>+\<close> or \<open>-\<close>, then one or more decimal digits and
  nothing else; a value outside the range of \<^verbatim>\<open>int\<close> is an error too.
\<close>

definition is_digit :: "char \<Rightarrow> bool" where
  "is_digit c = (48 \<le> (of_char c :: nat) \<and> (of_char c :: nat) \<le> 57)"

fun digits_value :: "string \<Rightarrow> nat \<Rightarrow> nat option" where
  "digits_value [] n = Some n"
| "digits_value (c # cs) n =
     (if is_digit c then digits_value cs (n * 10 + (of_char c - 48)) else None)"

definition strip_sign :: "string \<Rightarrow> bool \<times> string" where
  "strip_sign s =
     (case s of
        [] \<Rightarrow> (False, [])
      | c # cs \<Rightarrow>
          if c = CHR ''-'' then (True, cs)
          else if c = CHR ''+'' then (False, cs)
          else (False, s))"

definition Atoi :: "string \<Rightarrow> int64 option" where
  "Atoi s =
     (case strip_sign s of
        (neg, ds) \<Rightarrow>
          if ds = [] then None
          else (case digits_value ds 0 of
                  None \<Rightarrow> None
                | Some n \<Rightarrow>
                    let v = (if neg then - int n else int n)
                    in if - (2 ^ 63) \<le> v \<and> v < 2 ^ 63 then Some (word_of_int v) else None))"

text \<open>
  \<^verbatim>\<open>url.QueryEscape\<close>: letters, digits and \<open>- _ . ~\<close> stay, a space becomes \<open>+\<close>, every
  other byte becomes \<open>%\<close> and two upper-case hexadecimal digits.
\<close>

definition unreserved :: "char \<Rightarrow> bool" where
  "unreserved c =
     (let n = (of_char c :: nat)
      in (48 \<le> n \<and> n \<le> 57) \<or> (65 \<le> n \<and> n \<le> 90) \<or> (97 \<le> n \<and> n \<le> 122)
         \<or> c = CHR ''-'' \<or> c = CHR ''_'' \<or> c = CHR ''.'' \<or> c = CHR ''~'')"

definition upperhex :: "nat \<Rightarrow> char" where
  "upperhex n = ''0123456789ABCDEF'' ! n"

definition escape_byte :: "char \<Rightarrow> string" where
  "escape_byte c =
     (if unreserved c then [c]
      else if c = CHR '' '' then ''+''
      else [CHR ''%'', upperhex (of_char c div 16), upperhex (of_char c mod 16)])"

definition QueryEscape :: "string \<Rightarrow> string" where
  "QueryEscape s = concat (map escape_byte s)"

text \<open>The verb \<^verbatim>\<open>%d\<close> of \<^verbatim>\<open>fmt.Sprintf\<close> on an \<^verbatim>\<open>int\<close>: decimal, with \<open>-\<close> for a negative.\<close>

definition digit_char :: "nat \<Rightarrow> char" where
  "digit_char d = char_of (of_char CHR ''0'' + d)"

fun decimal :: "nat \<Rightarrow> string" where
  "decimal n = (if n < 10 then [] else decimal (n div 10)) @ [digit_char (n mod 10)]"

definition fmt_d :: "int64 \<Rightarrow> string" where
  "fmt_d x = (if sint x < 0 then CHR ''-'' # decimal (nat (- sint x)) else decimal (nat (sint x)))"

text \<open>
  The conversion \<^verbatim>\<open>float64(x)\<close> of an integer: the nearest value with a 53-bit
  significand, a tie going to the even significand. Every such value is an integer.
\<close>

fun bit_length :: "nat \<Rightarrow> nat" where
  "bit_length n = (if n = 0 then 0 else Suc (bit_length (n div 2)))"

definition round53 :: "nat \<Rightarrow> nat" where
  "round53 a =
     (if bit_length a \<le> 53 then a
      else let e = bit_length a - 53;
               q = a div 2 ^ e;
               r = a mod 2 ^ e;
               h = 2 ^ (e - 1)
           in (if h < r \<or> (r = h \<and> odd q) then q + 1 else q) * 2 ^ e)"

definition float64 :: "int64 \<Rightarrow> real" where
  "float64 x =
     (if sint x < 0 then - real (round53 (nat (- sint x))) else real (round53 (nat (sint x))))"

text \<open>\<^verbatim>\<open>math.Ceil\<close>, on finite values.\<close>

definition Ceil :: "real \<Rightarrow> real" where
  "Ceil f = of_int \<lceil>f\<rceil>"

text \<open>
  The conversion \<^verbatim>\<open>int(f)\<close> of a float: the fraction is discarded (truncation towards
  zero). The values converted here lie within the range of \<^verbatim>\<open>int\<close>.
\<close>

definition int_of_float64 :: "real \<Rightarrow> int64" where
  "int_of_float64 f = word_of_int (if 0 \<le> f then \<lfloor>f\<rfloor> else \<lceil>f\<rceil>)"

text \<open>Go's \<open>/\<close> on \<^verbatim>\<open>int\<close>: the quotient truncated towards zero.\<close>

definition quo :: "int64 \<Rightarrow> int64 \<Rightarrow> int64" where
  "quo a b = word_of_int (sint a sdiv sint b)"

text \<open>\<^verbatim>\<open>http.Error(w, msg, code)\<close> writes the status and the message followed by a newline.\<close>

datatype body = Text string | Rendered Search

record response =
  status :: nat
  content :: body

definition http_Error :: "string \<Rightarrow> nat \<Rightarrow> response" where
  "http_Error msg code = \<lparr>status = code, content = Text (msg @ [CHR 0x0A])\<rparr>"

definition StatusInternalServerError :: nat where
  "StatusInternalServerError = 500"

text \<open>\<^verbatim>\<open>url.Values\<close> is \<^verbatim>\<open>map[string][]string\<close>; \<^verbatim>\<open>Get\<close> is the first value of a key, or \<^verbatim>\<open>""\<close>.\<close>

type_synonym Values = "string \<rightharpoonup> string list"

definition Get :: "Values \<Rightarrow> string \<Rightarrow> string" where
  "Get v key = (case v key of None \<Rightarrow> [] | Some [] \<Rightarrow> [] | Some (x # _) \<Rightarrow> x)"

subsection \<open>The environment of a request\<close>

text \<open>
  What the handler reads from outside: the request's URL, which
  \<^verbatim>\<open>url.Parse(r.URL.String())\<close> either rejects or turns into query parameters; the
  global \<^verbatim>\<open>*apiKey\<close>; the answer of \<^verbatim>\<open>http.Get\<close> to an address; and the two JSON
  decoders, \<open>None\<close> when \<^verbatim>\<open>Decode\<close> returns an error.
\<close>

datatype request = Unparsable | Query Values

datatype get_result = GetError | Response (StatusCode : int) (Body : string)

record env =
  apiKey :: string
  http_Get :: "string \<Rightarrow> get_result"
  decode_NewsAPIError :: "string \<Rightarrow> NewsAPIError option"
  decode_Results :: "string \<Rightarrow> Results option"

text \<open>
  What a run of the handler leaves behind: the response, the addresses requested from
  upstream in order, and the successive values of \<^verbatim>\<open>*search\<close> from the assignment of the
  parsed page (line 117) on.
\<close>

record outcome =
  reply :: response
  calls :: "string list"
  states :: "Search list"

subsection \<open>The search handler\<close>

definition pageSize :: int64 where
  "pageSize = 20"

text \<open>Line 121, the address of the upstream call.\<close>

definition endpoint :: "string \<Rightarrow> Search \<Rightarrow> string" where
  "endpoint key s =
     ''https://newsapi.org/v2/everything?q='' @ QueryEscape (SearchKey s)
     @ ''&pageSize='' @ fmt_d pageSize
     @ ''&page='' @ fmt_d (NextPage s)
     @ ''&apiKey='' @ key
     @ ''&sortBy=publishedAt&language=en''"

text \<open>Line 150: \<^verbatim>\<open>int(math.Ceil(float64(search.Results.TotalResults / pageSize)))\<close>.\<close>

definition total_pages :: "Results \<Rightarrow> int64" where
  "total_pages res = int_of_float64 (Ceil (float64 (quo (TotalResults res) pageSize)))"

text \<open>Lines 152 to 154: \<^verbatim>\<open>if ok := !search.IsLastPage(); ok { search.NextPage++ }\<close>.\<close>

definition advance :: "Search \<Rightarrow> Search" where
  "advance s = (if \<not> IsLastPage s then s\<lparr>NextPage := NextPage s + 1\<rparr> else s)"

text \<open>Lines 144 to 159, once the body of a 200 response has been decoded.\<close>

definition finish :: "string \<Rightarrow> Search \<Rightarrow> Results \<Rightarrow> outcome" where
  "finish url s1 res =
     (let s2 = s1\<lparr>Results := res\<rparr>;
          s3 = s2\<lparr>TotalPages := total_pages (Results s2)\<rparr>;
          s4 = advance s3
      in \<lparr>reply = \<lparr>status = 200, content = Rendered s4\<rparr>,
          calls = [url], states = [s1, s2, s3, s4]\<rparr>)"

text \<open>Lines 122 to 148, the upstream call and its three failures.\<close>

definition fetch :: "env \<Rightarrow> Search \<Rightarrow> outcome" where
  "fetch E s1 =
     (let url = endpoint (apiKey E) s1
      in case http_Get E url of
           GetError \<Rightarrow>
             \<lparr>reply = \<lparr>status = StatusInternalServerError,
                       content = Text ''Internal server error''\<rparr>,
              calls = [url], states = [s1]\<rparr>
         | Response code b \<Rightarrow>
             if code \<noteq> 200 then
               (case decode_NewsAPIError E b of
                  None \<Rightarrow>
                    \<lparr>reply = http_Error ''Unexpected server error'' StatusInternalServerError,
                     calls = [url], states = [s1]\<rparr>
                | Some newError \<Rightarrow>
                    \<lparr>reply = http_Error (Message newError) StatusInternalServerError,
                     calls = [url], states = [s1]\<rparr>)
             else
               (case decode_Results E b of
                  None \<Rightarrow>
                    \<lparr>reply = \<lparr>status = StatusInternalServerError, content = Text []\<rparr>,
                     calls = [url], states = [s1]\<rparr>
                | Some res \<Rightarrow> finish url s1 res))"

text \<open>Lines 103 to 106: \<^verbatim>\<open>page := params.Get("page"); if page == "" { page = "1" }\<close>.\<close>

definition page_param :: "Values \<Rightarrow> string" where
  "page_param params = (let page = Get params ''page'' in if page = [] then ''1'' else page)"

text \<open>Lines 108 to 117: the fresh \<^verbatim>\<open>Search\<close> with the search key and the parsed page.\<close>

definition parsed :: "Values \<Rightarrow> int64 \<Rightarrow> Search" where
  "parsed params next =
     (let search = zero_Search\<lparr>SearchKey := Get params ''q''\<rparr>
      in search\<lparr>NextPage := next\<rparr>)"

text \<open>The handler: lines 93 to 115, then the rest.\<close>

definition searchHandler :: "env \<Rightarrow> request \<Rightarrow> outcome" where
  "searchHandler E r =
     (case r of
        Unparsable \<Rightarrow>
          \<lparr>reply = \<lparr>status = StatusInternalServerError,
                    content = Text ''Internal server error''\<rparr>,
           calls = [], states = []\<rparr>
      | Query params \<Rightarrow>
          (case Atoi (page_param params) of
             None \<Rightarrow>
               \<lparr>reply = http_Error ''Unexpected server error'' StatusInternalServerError,
                calls = [], states = []\<rparr>
           | Some next \<Rightarrow> fetch E (parsed params next)))"

subsection \<open>Example requests and upstream behaviours\<close>

text \<open>
  The parameters of \<^verbatim>\<open>/search?q=...&page=...\<close>, and those of a request with no
  \<^verbatim>\<open>page\<close>.
\<close>

definition params_for :: "string \<Rightarrow> string \<Rightarrow> Values" where
  "params_for q p = Map.empty(''q'' \<mapsto> [q], ''page'' \<mapsto> [p])"

definition params_first :: "string \<Rightarrow> Values" where
  "params_first q = Map.empty(''q'' \<mapsto> [q])"

definition results_count :: "int64 \<Rightarrow> Results" where
  "results_count n = \<lparr>Status = ''ok'', TotalResults = n, Articles = []\<rparr>"

text \<open>An upstream that answers 200 with a body that decodes to \<open>n\<close> results.\<close>

definition upstream_ok :: "int64 \<Rightarrow> env" where
  "upstream_ok n =
     \<lparr>apiKey = ''KEY'',
      http_Get = (\<lambda>url. Response 200 ''{}''),
      decode_NewsAPIError = (\<lambda>b. None),
      decode_Results = (\<lambda>b. Some (results_count n))\<rparr>"

text \<open>An upstream that answers 200 with a body that is not JSON.\<close>

definition upstream_garbled :: env where
  "upstream_garbled =
     \<lparr>apiKey = ''KEY'',
      http_Get = (\<lambda>url. Response 200 ''<html>''),
      decode_NewsAPIError = (\<lambda>b. None),
      decode_Results = (\<lambda>b. None)\<rparr>"

text \<open>
  An upstream that rejects the key: status 401 and the envelope
  \<^verbatim>\<open>{"status":"error","code":"apiKeyInvalid","message":"Your API key is invalid"}\<close>.
\<close>

definition quoted :: "string \<Rightarrow> string" where
  "quoted s = CHR 0x22 # s @ [CHR 0x22]"

definition rejection_body :: string where
  "rejection_body =
     ''{'' @ quoted ''status'' @ '':'' @ quoted ''error'' @ '',''
     @ quoted ''code'' @ '':'' @ quoted ''apiKeyInvalid'' @ '',''
     @ quoted ''message'' @ '':'' @ quoted ''Your API key is invalid'' @ ''}''"

definition upstream_rejecting :: env where
  "upstream_rejecting =
     \<lparr>apiKey = ''KEY'',
      http_Get = (\<lambda>url. Response 401 rejection_body),
      decode_NewsAPIError =
        (\<lambda>b. if b = rejection_body
             then Some \<lparr>ErrStatus = ''error'', Code = ''apiKeyInvalid'',
                        Message = ''Your API key is invalid''\<rparr>
             else None),
      decode_Results = (\<lambda>b. None)\<rparr>"

text \<open>An upstream that answers 502 with a body that is not JSON.\<close>

definition upstream_down :: env where
  "upstream_down =
     \<lparr>apiKey = ''KEY'',
      http_Get = (\<lambda>url. Response 502 ''Bad Gateway''),
      decode_NewsAPIError = (\<lambda>b. None),
      decode_Results = (\<lambda>b. None)\<rparr>"

section \<open>Properties\<close>

subsection \<open>Machine integers\<close>

lemma sint_succ:
  fixes x y :: int64
  assumes "sint x < sint y"
  shows "sint (x + 1) = sint x + 1"
proof -
  have "sint y < 2 ^ 63" using sint_lt [of y] by simp
  moreover have "- (2 ^ 63) \<le> sint x" using sint_ge [of x] by simp
  ultimately have "- (2 ^ 63) \<le> sint x + 1" and "sint x + 1 < 2 ^ 63"
    using assms by linarith+
  then have "signed_take_bit 63 (sint x + 1) = sint x + 1"
    by (simp add: signed_take_bit_int_eq_self)
  then show ?thesis by (simp add: sint_word_ariths)
qed

lemma sint_pred:
  fixes x y :: int64
  assumes "sint y < sint x"
  shows "sint (x - 1) = sint x - 1"
proof -
  have "sint x < 2 ^ 63" using sint_lt [of x] by simp
  moreover have "- (2 ^ 63) \<le> sint y" using sint_ge [of y] by simp
  ultimately have "- (2 ^ 63) \<le> sint x - 1" and "sint x - 1 < 2 ^ 63"
    using assms by linarith+
  then have "signed_take_bit 63 (sint x - 1) = sint x - 1"
    by (simp add: signed_take_bit_int_eq_self)
  then show ?thesis by (simp add: sint_word_ariths)
qed

lemma IsLastPage_sint: "IsLastPage s \<longleftrightarrow> sint (TotalPages s) \<le> sint (NextPage s)"
  by (simp add: IsLastPage_def word_sle_eq)

lemma sint_quo_pageSize:
  assumes "0 \<le> sint x"
  shows "sint (quo x pageSize) = sint x div 20"
proof -
  have lt: "sint x < 2 ^ 63" using sint_lt [of x] by simp
  have "sint x sdiv 20 = sint x div 20"
    using assms by (simp add: signed_divide_int_def sgn_if)
  moreover have "0 \<le> sint x div 20" using assms by simp
  moreover have "sint x div 20 \<le> sint x"
    using assms by (cases "sint x = 0") (simp_all add: int_div_le_self)
  ultimately show ?thesis using lt
    by (simp add: quo_def pageSize_def signed_of_int signed_take_bit_int_eq_self)
qed

subsection \<open>The conversion to float64 and back\<close>

lemma bit_length_le: "n < 2 ^ k \<Longrightarrow> bit_length n \<le> k"
proof (induction k arbitrary: n)
  case 0
  then show ?case by simp
next
  case (Suc k)
  have "n div 2 < 2 ^ k" using Suc.prems by simp
  then have "bit_length (n div 2) \<le> k" by (rule Suc.IH)
  then show ?case by (subst bit_length.simps) simp
qed

lemma round53_exact: "a \<le> 2 ^ 53 \<Longrightarrow> round53 a = a"
proof (cases "a = 2 ^ 53")
  case True
  then show ?thesis by (simp add: round53_def)
next
  case False
  assume "a \<le> 2 ^ 53"
  with False have "a < 2 ^ 53" by simp
  then have "bit_length a \<le> 53" by (rule bit_length_le)
  then show ?thesis by (simp add: round53_def)
qed

lemma total_pages_exact:
  assumes "0 \<le> sint (TotalResults res)" and "sint (TotalResults res) < 180143985094819860"
  shows "sint (total_pages res) = sint (TotalResults res) div 20"
proof -
  define q where "q = quo (TotalResults res) pageSize"
  define k where "k = sint q"
  have q: "k = sint (TotalResults res) div 20"
    unfolding k_def q_def using assms(1) by (rule sint_quo_pageSize)
  have q0: "0 \<le> k" using q assms(1) by simp
  have q1: "k \<le> 2 ^ 53" using q assms(2) by simp
  have "nat k \<le> 2 ^ 53" using q1 by simp
  then have r: "round53 (nat k) = nat k" by (rule round53_exact)
  have "float64 q = real_of_int k" using q0 r by (simp add: float64_def k_def [symmetric])
  then have "int_of_float64 (Ceil (float64 q)) = word_of_int k"
    using q0 by (simp add: int_of_float64_def Ceil_def)
  then have "total_pages res = q"
    by (simp add: total_pages_def q_def [symmetric] k_def)
  then show ?thesis using q by (simp add: k_def)
qed

lemma total_pages_examples:
  "total_pages (results_count 45) = 2"
  "total_pages (results_count 60) = 3"
  "total_pages (results_count 180143985094819860) = 9007199254740992"
  by (simp_all add: results_count_def total_pages_def int_of_float64_def Ceil_def
        float64_def quo_def pageSize_def round53_def signed_divide_int_def)

subsection \<open>The shape of a run\<close>

lemma Atoi_examples:
  "Atoi ''0'' = Some 0" "Atoi ''1'' = Some 1" "Atoi ''2'' = Some 2" "Atoi ''3'' = Some 3"
  "Atoi ''abc'' = None"
  by (simp_all add: Atoi_def strip_sign_def is_digit_def)

lemma params_for_simps [simp]:
  "Get (params_for q p) ''q'' = q"
  "Get (params_for q p) ''page'' = p"
  "page_param (params_for q p) = (if p = [] then ''1'' else p)"
  "Get (params_first q) ''q'' = q"
  "Get (params_first q) ''page'' = []"
  "page_param (params_first q) = ''1''"
  by (simp_all add: page_param_def Get_def params_for_def params_first_def)

lemma advance_fields [simp]:
  "TotalPages (advance s) = TotalPages s"
  "Results (advance s) = Results s"
  "SearchKey (advance s) = SearchKey s"
  by (simp_all add: advance_def)

lemma advance_NextPage:
  "sint (NextPage (advance s)) = (if IsLastPage s then sint (NextPage s) else sint (NextPage s) + 1)"
proof (cases "IsLastPage s")
  case True
  then show ?thesis by (simp add: advance_def)
next
  case False
  then have "sint (NextPage s) < sint (TotalPages s)" by (simp add: IsLastPage_sint)
  then have "sint (NextPage s + 1) = sint (NextPage s) + 1" by (rule sint_succ)
  with False show ?thesis by (simp add: advance_def)
qed

lemma parsed_fields [simp]:
  "NextPage (parsed params n) = n"
  "SearchKey (parsed params n) = Get params ''q''"
  by (simp_all add: parsed_def zero_Search_def)

lemma digit_char_simps:
  "digit_char 0 = CHR ''0''" "digit_char 1 = CHR ''1''" "digit_char 2 = CHR ''2''"
  "digit_char 3 = CHR ''3''" "digit_char 4 = CHR ''4''" "digit_char 5 = CHR ''5''"
  "digit_char 6 = CHR ''6''" "digit_char 7 = CHR ''7''" "digit_char 8 = CHR ''8''"
  "digit_char 9 = CHR ''9''" "digit_char (Suc 0) = CHR ''1''"
  by code_simp+

lemma fmt_d_examples:
  "fmt_d pageSize = ''20''" "fmt_d 0 = ''0''" "fmt_d 1 = ''1''" "fmt_d 2 = ''2''"
  by (simp_all add: fmt_d_def pageSize_def digit_char_simps)

lemma QueryEscape_bitcoin: "QueryEscape ''bitcoin'' = ''bitcoin''"
  by (simp add: QueryEscape_def escape_byte_def unreserved_def)

lemma endpoint_examples:
  "endpoint ''KEY'' (parsed (params_for ''bitcoin'' ''1'') 1) =
     ''https://newsapi.org/v2/everything?q=bitcoin&pageSize=20&page=1&apiKey=KEY&sortBy=publishedAt&language=en''"
  "endpoint ''KEY'' (parsed (params_for ''bitcoin'' ''2'') 2) =
     ''https://newsapi.org/v2/everything?q=bitcoin&pageSize=20&page=2&apiKey=KEY&sortBy=publishedAt&language=en''"
  by (simp_all add: endpoint_def fmt_d_examples QueryEscape_bitcoin)

lemma fetch_calls: "calls (fetch E s1) = [endpoint (apiKey E) s1]"
  by (cases "http_Get E (endpoint (apiKey E) s1)")
     (simp_all add: fetch_def finish_def Let_def split: option.splits)

lemma fetch_Rendered:
  assumes "content (reply (fetch E s1)) = Rendered s"
  shows "\<exists>res. s = advance (s1\<lparr>Results := res, TotalPages := total_pages res\<rparr>)"
  using assms
  by (cases "http_Get E (endpoint (apiKey E) s1)")
     (auto simp: fetch_def finish_def http_Error_def Let_def split: option.splits if_splits)

lemma searchHandler_Rendered:
  assumes "content (reply (searchHandler E r)) = Rendered s"
  shows "\<exists>params n res. r = Query params \<and> Atoi (page_param params) = Some n
           \<and> s = advance ((parsed params n)\<lparr>Results := res, TotalPages := total_pages res\<rparr>)"
proof (cases r)
  case Unparsable
  with assms show ?thesis by (simp add: searchHandler_def)
next
  case (Query params)
  show ?thesis
  proof (cases "Atoi (page_param params)")
    case None
    with Query assms show ?thesis by (simp add: searchHandler_def http_Error_def)
  next
    case (Some n)
    with Query have "searchHandler E r = fetch E (parsed params n)"
      by (simp add: searchHandler_def)
    with assms obtain res
      where "s = advance ((parsed params n)\<lparr>Results := res, TotalPages := total_pages res\<rparr>)"
      using fetch_Rendered by metis
    with Query Some show ?thesis by blast
  qed
qed

lemma run_ok:
  assumes "Atoi (page_param params) = Some n"
  shows "searchHandler (upstream_ok k) (Query params) =
     (let s1 = \<lparr>SearchKey = Get params ''q'', NextPage = n, TotalPages = 0,
                 Results = zero_Results\<rparr>;
          s2 = s1\<lparr>Results := results_count k\<rparr>;
          s3 = s2\<lparr>TotalPages := total_pages (results_count k)\<rparr>
      in \<lparr>reply = \<lparr>status = 200, content = Rendered (advance s3)\<rparr>,
          calls = [endpoint ''KEY'' s1],
          states = [s1, s2, s3, advance s3]\<rparr>)"
  using assms
  by (simp add: searchHandler_def upstream_ok_def fetch_def finish_def Let_def parsed_def
        zero_Search_def)

subsection \<open>Total pages\<close>

text \<open>
  C1, as amended. When the handler renders a page for a result count from 0 up to
  180143985094819859, \<^verbatim>\<open>TotalPages\<close> is the truncating quotient of the count by 20, with
  no rounding up. (Beyond that the quotient exceeds \<open>2 ^ 53\<close> and the detour through
  \<^verbatim>\<open>float64\<close> rounds it.)
\<close>

theorem totalPages_truncating:
  assumes "content (reply (searchHandler E r)) = Rendered s"
    and "0 \<le> sint (TotalResults (Results s))"
    and "sint (TotalResults (Results s)) < 180143985094819860"
  shows "sint (TotalPages s) = sint (TotalResults (Results s)) div 20"
proof -
  from assms(1) obtain params n res
    where s: "s = advance ((parsed params n)\<lparr>Results := res, TotalPages := total_pages res\<rparr>)"
    using searchHandler_Rendered by blast
  have "Results s = res" and "TotalPages s = total_pages res"
    by (simp_all add: s)
  with assms(2,3) show ?thesis by (simp add: total_pages_exact)
qed

text \<open>45 results give 2 pages, not 3.\<close>

theorem totalPages_truncating_witness:
  "content (reply (searchHandler (upstream_ok 45) (Query (params_for ''bitcoin'' ''1''))))
     = Rendered \<lparr>SearchKey = ''bitcoin'', NextPage = 2, TotalPages = 2,
                 Results = results_count 45\<rparr>
   \<and> 0 \<le> sint (45 :: int64) \<and> sint (45 :: int64) < 180143985094819860
   \<and> sint (2 :: int64) = sint (45 :: int64) div 20"
proof -
  let ?s = "\<lparr>SearchKey = ''bitcoin'', NextPage = 2, TotalPages = 2,
              Results = results_count 45\<rparr>"
  have run: "content (reply (searchHandler (upstream_ok 45) (Query (params_for ''bitcoin'' ''1''))))
      = Rendered ?s"
    by (simp add: run_ok Atoi_examples total_pages_examples Let_def advance_def IsLastPage_sint)
  have a: "0 \<le> sint (TotalResults (Results ?s))"
    and b: "sint (TotalResults (Results ?s)) < 180143985094819860"
    by (simp_all add: results_count_def)
  from totalPages_truncating [OF run a b] run show ?thesis
    by (simp add: results_count_def)
qed

text \<open>
  C1 as stated fails: 180143985094819860 results have the quotient
  \<open>9007199254740993 = 2 ^ 53 + 1\<close>, which \<^verbatim>\<open>float64\<close> rounds to \<open>2 ^ 53\<close>.
\<close>

theorem totalPages_rounded_counterexample:
  "content (reply (searchHandler (upstream_ok 180143985094819860)
       (Query (params_for ''bitcoin'' ''1''))))
     = Rendered \<lparr>SearchKey = ''bitcoin'', NextPage = 2, TotalPages = 9007199254740992,
                 Results = results_count 180143985094819860\<rparr>
   \<and> 0 \<le> sint (180143985094819860 :: int64)
   \<and> sint (180143985094819860 :: int64) div 20 = 9007199254740993"
  by (simp add: run_ok Atoi_examples total_pages_examples Let_def advance_def IsLastPage_sint)

subsection \<open>The advance rule\<close>

lemma rendered_unadvanced:
  assumes "s = advance s3" and "NextPage s3 = p"
  shows "s\<lparr>NextPage := p\<rparr> = s3"
  using assms by (cases "IsLastPage s3") (simp_all add: advance_def)

lemma nextPage_advance_aux:
  assumes "content (reply (searchHandler E (Query params))) = Rendered s"
    and "Atoi (page_param params) = Some p"
  shows "sint (NextPage s)
     = (if IsLastPage (s\<lparr>NextPage := p\<rparr>) then sint p else sint p + 1)"
proof -
  from assms(1) obtain params' n res
    where "Query params = Query params'" and "Atoi (page_param params') = Some n"
      and s: "s = advance ((parsed params' n)\<lparr>Results := res, TotalPages := total_pages res\<rparr>)"
    using searchHandler_Rendered by blast
  with assms(2) have n: "n = p" and [simp]: "params' = params" by simp_all
  let ?s3 = "(parsed params p)\<lparr>Results := res, TotalPages := total_pages res\<rparr>"
  have s': "s = advance ?s3" using s n by simp
  then have "s\<lparr>NextPage := p\<rparr> = ?s3" by (rule rendered_unadvanced) simp
  moreover have "sint (NextPage s)
      = (if IsLastPage ?s3 then sint (NextPage ?s3) else sint (NextPage ?s3) + 1)"
    unfolding s' by (rule advance_NextPage)
  ultimately show ?thesis by simp
qed

text \<open>
  C2. After a successful fetch of page \<open>p\<close>, the \<^verbatim>\<open>NextPage\<close> that is rendered is \<open>p + 1\<close>
  (exactly, without wrap-around) when \<^verbatim>\<open>IsLastPage\<close> was false on the state with the
  page just fetched and the computed \<^verbatim>\<open>TotalPages\<close>, and \<open>p\<close> itself otherwise.
\<close>

theorem nextPage_advance:
  assumes "content (reply (searchHandler E (Query params))) = Rendered s"
    and "Atoi (page_param params) = Some p"
  shows "sint (NextPage s)
     = (if IsLastPage (s\<lparr>NextPage := p\<rparr>) then sint p else sint p + 1)"
  using assms by (rule nextPage_advance_aux)

text \<open>Page 1 of 3 pages leads to 2; page 3 of 3 pages stays 3.\<close>

theorem nextPage_advance_witness:
  "content (reply (searchHandler (upstream_ok 60) (Query (params_for ''bitcoin'' ''1''))))
     = Rendered \<lparr>SearchKey = ''bitcoin'', NextPage = 2, TotalPages = 3,
                 Results = results_count 60\<rparr>
   \<and> Atoi (page_param (params_for ''bitcoin'' ''1'')) = Some 1
   \<and> sint (2 :: int64) = sint (1 :: int64) + 1
   \<and> content (reply (searchHandler (upstream_ok 60) (Query (params_for ''bitcoin'' ''3''))))
     = Rendered \<lparr>SearchKey = ''bitcoin'', NextPage = 3, TotalPages = 3,
                 Results = results_count 60\<rparr>
   \<and> Atoi (page_param (params_for ''bitcoin'' ''3'')) = Some 3"
proof -
  have run1: "content (reply (searchHandler (upstream_ok 60) (Query (params_for ''bitcoin'' ''1''))))
      = Rendered \<lparr>SearchKey = ''bitcoin'', NextPage = 2, TotalPages = 3,
                  Results = results_count 60\<rparr>"
    by (simp add: run_ok Atoi_examples total_pages_examples Let_def advance_def IsLastPage_sint)
  have run3: "content (reply (searchHandler (upstream_ok 60) (Query (params_for ''bitcoin'' ''3''))))
      = Rendered \<lparr>SearchKey = ''bitcoin'', NextPage = 3, TotalPages = 3,
                  Results = results_count 60\<rparr>"
    by (simp add: run_ok Atoi_examples total_pages_examples Let_def advance_def IsLastPage_sint)
  have p1: "Atoi (page_param (params_for ''bitcoin'' ''1'')) = Some 1"
    and p3: "Atoi (page_param (params_for ''bitcoin'' ''3'')) = Some 3"
    by (simp_all add: Atoi_examples)
  from nextPage_advance [OF run1 p1] nextPage_advance [OF run3 p3] run1 run3 p1 p3
  show ?thesis by (simp add: IsLastPage_sint)
qed

subsection \<open>The pagination methods\<close>

text \<open>
  C3. \<^verbatim>\<open>IsLastPage\<close> is true exactly when \<^verbatim>\<open>NextPage >= TotalPages\<close>, the two read as
  signed integers.
\<close>

theorem isLastPage_iff: "IsLastPage s = (sint (NextPage s) \<ge> sint (TotalPages s))"
  by (simp add: IsLastPage_def word_sle_eq)

theorem isLastPage_iff_witness:
  "IsLastPage \<lparr>SearchKey = ''bitcoin'', NextPage = 3, TotalPages = 3, Results = zero_Results\<rparr>
   \<and> \<not> IsLastPage \<lparr>SearchKey = ''bitcoin'', NextPage = 1, TotalPages = 3,
                      Results = zero_Results\<rparr>"
  using isLastPage_iff [of "\<lparr>SearchKey = ''bitcoin'', NextPage = 3, TotalPages = 3,
                               Results = zero_Results\<rparr>"]
    isLastPage_iff [of "\<lparr>SearchKey = ''bitcoin'', NextPage = 1, TotalPages = 3,
                          Results = zero_Results\<rparr>"]
  by simp

text \<open>
  C4. \<^verbatim>\<open>CurrentPage\<close> is 1 when \<^verbatim>\<open>NextPage\<close> is 1 and \<^verbatim>\<open>NextPage - 1\<close> otherwise;
  \<^verbatim>\<open>PreviousPage\<close> is always \<^verbatim>\<open>CurrentPage - 1\<close>, in the arithmetic of \<^verbatim>\<open>int\<close>. Nothing
  clamps it from below: it is 0 for \<^verbatim>\<open>NextPage = 1\<close> and \<open>-2\<close> for \<^verbatim>\<open>NextPage = 0\<close>.
\<close>

theorem currentPage_previousPage:
  "CurrentPage s = (if NextPage s = 1 then 1 else NextPage s - 1)
   \<and> PreviousPage s = CurrentPage s - 1
   \<and> sint (PreviousPage (s\<lparr>NextPage := 1\<rparr>)) = 0
   \<and> sint (PreviousPage (s\<lparr>NextPage := 0\<rparr>)) = - 2"
  by (simp add: CurrentPage_def PreviousPage_def)

theorem currentPage_previousPage_witness:
  "CurrentPage \<lparr>SearchKey = ''bitcoin'', NextPage = 5, TotalPages = 9, Results = zero_Results\<rparr> = 4
   \<and> PreviousPage \<lparr>SearchKey = ''bitcoin'', NextPage = 5, TotalPages = 9,
                     Results = zero_Results\<rparr> = 3
   \<and> CurrentPage \<lparr>SearchKey = ''bitcoin'', NextPage = 1, TotalPages = 9,
                    Results = zero_Results\<rparr> = 1
   \<and> PreviousPage \<lparr>SearchKey = ''bitcoin'', NextPage = 1, TotalPages = 9,
                     Results = zero_Results\<rparr> = 0"
  using currentPage_previousPage [of "\<lparr>SearchKey = ''bitcoin'', NextPage = 5, TotalPages = 9,
                                         Results = zero_Results\<rparr>"]
    currentPage_previousPage [of "\<lparr>SearchKey = ''bitcoin'', NextPage = 1, TotalPages = 9,
                                    Results = zero_Results\<rparr>"]
  by simp

text \<open>
  C10. When the page fetched is \<open>p > 1\<close> and it is the last one (\<open>p \<ge> TotalPages\<close>),
  the rendered \<^verbatim>\<open>NextPage\<close> is still \<open>p\<close>, so \<^verbatim>\<open>CurrentPage\<close> reports \<open>p - 1\<close>: one less
  than the page that was fetched and is shown.
\<close>

theorem currentPage_lags_on_last_page:
  assumes "content (reply (searchHandler E (Query params))) = Rendered s"
    and "Atoi (page_param params) = Some p"
    and "1 < sint p"
    and "sint (TotalPages s) \<le> sint p"
  shows "NextPage s = p \<and> sint (CurrentPage s) = sint p - 1"
proof -
  have last: "IsLastPage (s\<lparr>NextPage := p\<rparr>)"
    using assms(4) by (simp add: IsLastPage_sint)
  with nextPage_advance_aux [OF assms(1,2)] have "sint (NextPage s) = sint p" by simp
  then have np: "NextPage s = p" by (rule signed_word_eqI)
  have "sint (1 :: int64) < sint p" using assms(3) by simp
  then have "sint (p - 1) = sint p - 1" by (rule sint_pred)
  moreover have "p \<noteq> 1" using assms(3) by auto
  ultimately show ?thesis using np by (simp add: CurrentPage_def)
qed

theorem currentPage_lags_on_last_page_witness:
  "content (reply (searchHandler (upstream_ok 60) (Query (params_for ''bitcoin'' ''3''))))
     = Rendered \<lparr>SearchKey = ''bitcoin'', NextPage = 3, TotalPages = 3,
                 Results = results_count 60\<rparr>
   \<and> Atoi (page_param (params_for ''bitcoin'' ''3'')) = Some 3
   \<and> 1 < sint (3 :: int64) \<and> sint (3 :: int64) \<le> sint (3 :: int64)
   \<and> sint (CurrentPage \<lparr>SearchKey = ''bitcoin'', NextPage = 3, TotalPages = 3,
                          Results = results_count 60\<rparr>) = 2"
proof -
  have run: "content (reply (searchHandler (upstream_ok 60) (Query (params_for ''bitcoin'' ''3''))))
      = Rendered \<lparr>SearchKey = ''bitcoin'', NextPage = 3, TotalPages = 3,
                  Results = results_count 60\<rparr>"
    by (simp add: run_ok Atoi_examples total_pages_examples Let_def advance_def IsLastPage_sint)
  have p: "Atoi (page_param (params_for ''bitcoin'' ''3'')) = Some 3"
    by (simp add: Atoi_examples)
  from currentPage_lags_on_last_page [OF run p] run p show ?thesis by simp
qed

subsection \<open>Failures\<close>

lemma searchHandler_parsed:
  "Atoi (page_param params) = Some n \<Longrightarrow>
   searchHandler E (Query params) = fetch E (parsed params n)"
  by (simp add: searchHandler_def)

lemma searchHandler_called:
  assumes "calls (searchHandler E r) = [url]"
  shows "\<exists>s1. searchHandler E r = fetch E s1 \<and> url = endpoint (apiKey E) s1"
proof (cases r)
  case Unparsable
  with assms show ?thesis by (simp add: searchHandler_def)
next
  case (Query params)
  show ?thesis
  proof (cases "Atoi (page_param params)")
    case None
    with Query assms show ?thesis by (simp add: searchHandler_def)
  next
    case (Some n)
    with Query have run: "searchHandler E r = fetch E (parsed params n)"
      by (simp add: searchHandler_parsed)
    with assms have "url = endpoint (apiKey E) (parsed params n)"
      by (simp add: fetch_calls)
    with run show ?thesis by blast
  qed
qed

lemma fetch_rejected:
  assumes "http_Get E (endpoint (apiKey E) s1) = Response code b" and "code \<noteq> 200"
  shows "reply (fetch E s1) =
     http_Error (case decode_NewsAPIError E b of
                   None \<Rightarrow> ''Unexpected server error''
                 | Some newError \<Rightarrow> Message newError) StatusInternalServerError"
  using assms by (simp add: fetch_def split: option.splits)

lemma fetch_undecodable:
  assumes "http_Get E (endpoint (apiKey E) s1) = Response 200 b" and "decode_Results E b = None"
  shows "reply (fetch E s1) = \<lparr>status = StatusInternalServerError, content = Text []\<rparr>"
  using assms by (simp add: fetch_def)

text \<open>
  C5. When the upstream answers the handler's call with a status other than 200, the
  handler decodes the error envelope from the body. If that succeeds the response is a
  500 whose body is the envelope's message (followed by a newline); if it fails the
  response is a 500 with the generic text.
\<close>

theorem upstream_error_reported:
  assumes "calls (searchHandler E r) = [url]"
    and "http_Get E url = Response code b"
    and "code \<noteq> 200"
  shows "status (reply (searchHandler E r)) = 500
     \<and> content (reply (searchHandler E r)) =
         Text ((case decode_NewsAPIError E b of
                  None \<Rightarrow> ''Unexpected server error''
                | Some newError \<Rightarrow> Message newError) @ [CHR 0x0A])"
proof -
  from assms(1) obtain s1
    where run: "searchHandler E r = fetch E s1" and url: "url = endpoint (apiKey E) s1"
    using searchHandler_called by blast
  from assms(2) url have "http_Get E (endpoint (apiKey E) s1) = Response code b" by simp
  then have "reply (fetch E s1) =
      http_Error (case decode_NewsAPIError E b of
                    None \<Rightarrow> ''Unexpected server error''
                  | Some newError \<Rightarrow> Message newError) StatusInternalServerError"
    using assms(3) by (rule fetch_rejected)
  then show ?thesis
    by (simp add: run http_Error_def StatusInternalServerError_def)
qed

text \<open>The rejected key (401 with its envelope), and a 502 whose body is not JSON.\<close>

theorem upstream_error_reported_witness:
  "calls (searchHandler upstream_rejecting (Query (params_for ''bitcoin'' ''1'')))
     = [''https://newsapi.org/v2/everything?q=bitcoin&pageSize=20&page=1&apiKey=KEY&sortBy=publishedAt&language=en'']
   \<and> http_Get upstream_rejecting
        ''https://newsapi.org/v2/everything?q=bitcoin&pageSize=20&page=1&apiKey=KEY&sortBy=publishedAt&language=en''
       = Response 401 rejection_body
   \<and> (401 :: int) \<noteq> 200
   \<and> reply (searchHandler upstream_rejecting (Query (params_for ''bitcoin'' ''1'')))
       = \<lparr>status = 500, content = Text (''Your API key is invalid'' @ [CHR 0x0A])\<rparr>
   \<and> reply (searchHandler upstream_down (Query (params_for ''bitcoin'' ''1'')))
       = \<lparr>status = 500, content = Text (''Unexpected server error'' @ [CHR 0x0A])\<rparr>"
proof -
  let ?url = "''https://newsapi.org/v2/everything?q=bitcoin&pageSize=20&page=1&apiKey=KEY&sortBy=publishedAt&language=en''"
  let ?r = "Query (params_for ''bitcoin'' ''1'')"
  have url: "endpoint ''KEY'' (parsed (params_for ''bitcoin'' ''1'') 1) = ?url"
    by (simp add: endpoint_examples)
  have c1: "calls (searchHandler upstream_rejecting ?r) = [?url]"
    and c2: "calls (searchHandler upstream_down ?r) = [?url]"
    using url
    by (simp_all add: searchHandler_parsed Atoi_examples fetch_calls upstream_rejecting_def
          upstream_down_def)
  have g1: "http_Get upstream_rejecting ?url = Response 401 rejection_body"
    and g2: "http_Get upstream_down ?url = Response 502 ''Bad Gateway''"
    by (simp_all add: upstream_rejecting_def upstream_down_def)
  have d1: "decode_NewsAPIError upstream_rejecting rejection_body =
      Some \<lparr>ErrStatus = ''error'', Code = ''apiKeyInvalid'', Message = ''Your API key is invalid''\<rparr>"
    and d2: "decode_NewsAPIError upstream_down ''Bad Gateway'' = None"
    by (simp_all add: upstream_rejecting_def upstream_down_def)
  have "status (reply (searchHandler upstream_rejecting ?r)) = 500
      \<and> content (reply (searchHandler upstream_rejecting ?r))
          = Text (''Your API key is invalid'' @ [CHR 0x0A])"
    using upstream_error_reported [OF c1 g1] d1 by simp
  moreover have "status (reply (searchHandler upstream_down ?r)) = 500
      \<and> content (reply (searchHandler upstream_down ?r))
          = Text (''Unexpected server error'' @ [CHR 0x0A])"
    using upstream_error_reported [OF c2 g2] d2 by simp
  ultimately show ?thesis using c1 g1 by (simp add: response.equality)
qed

text \<open>
  C6. A request whose \<^verbatim>\<open>page\<close> parameter is present and is not an integer for
  \<^verbatim>\<open>strconv.Atoi\<close> gets a 500 response with the generic text, and no upstream call is
  made.
\<close>

theorem bad_page_rejected:
  assumes "Get params ''page'' \<noteq> []" and "Atoi (Get params ''page'') = None"
  shows "status (reply (searchHandler E (Query params))) = 500
     \<and> content (reply (searchHandler E (Query params)))
         = Text (''Unexpected server error'' @ [CHR 0x0A])
     \<and> calls (searchHandler E (Query params)) = []"
proof -
  from assms have "Atoi (page_param params) = None"
    by (simp add: page_param_def)
  then show ?thesis
    by (simp add: searchHandler_def http_Error_def StatusInternalServerError_def)
qed

theorem bad_page_rejected_witness:
  "Get (params_for ''bitcoin'' ''abc'') ''page'' \<noteq> []
   \<and> Atoi (Get (params_for ''bitcoin'' ''abc'') ''page'') = None
   \<and> reply (searchHandler (upstream_ok 45) (Query (params_for ''bitcoin'' ''abc'')))
       = \<lparr>status = 500, content = Text (''Unexpected server error'' @ [CHR 0x0A])\<rparr>
   \<and> calls (searchHandler (upstream_ok 45) (Query (params_for ''bitcoin'' ''abc''))) = []"
proof -
  have a: "Get (params_for ''bitcoin'' ''abc'') ''page'' \<noteq> []"
    and b: "Atoi (Get (params_for ''bitcoin'' ''abc'') ''page'') = None"
    by (simp_all add: Atoi_examples)
  from bad_page_rejected [OF a b, of "upstream_ok 45"] a b show ?thesis
    by (simp add: response.equality)
qed

text \<open>
  C7 does not hold of the code. When the upstream answers the handler's call with status
  200 and a body that does not decode as \<^verbatim>\<open>Results\<close>, the handler writes the status 500
  and returns (lines 145 to 148): the body of the response is empty.
\<close>

theorem undecodable_results_empty_body:
  assumes "calls (searchHandler E r) = [url]"
    and "http_Get E url = Response 200 b"
    and "decode_Results E b = None"
  shows "reply (searchHandler E r) = \<lparr>status = 500, content = Text []\<rparr>"
proof -
  from assms(1) obtain s1
    where run: "searchHandler E r = fetch E s1" and url: "url = endpoint (apiKey E) s1"
    using searchHandler_called by blast
  from assms(2) url have "http_Get E (endpoint (apiKey E) s1) = Response 200 b" by simp
  then have "reply (fetch E s1) = \<lparr>status = StatusInternalServerError, content = Text []\<rparr>"
    using assms(3) by (rule fetch_undecodable)
  then show ?thesis by (simp add: run StatusInternalServerError_def)
qed

theorem undecodable_results_empty_body_witness:
  "calls (searchHandler upstream_garbled (Query (params_for ''bitcoin'' ''1'')))
     = [''https://newsapi.org/v2/everything?q=bitcoin&pageSize=20&page=1&apiKey=KEY&sortBy=publishedAt&language=en'']
   \<and> http_Get upstream_garbled
        ''https://newsapi.org/v2/everything?q=bitcoin&pageSize=20&page=1&apiKey=KEY&sortBy=publishedAt&language=en''
       = Response 200 ''<html>''
   \<and> decode_Results upstream_garbled ''<html>'' = None
   \<and> reply (searchHandler upstream_garbled (Query (params_for ''bitcoin'' ''1'')))
       = \<lparr>status = 500, content = Text []\<rparr>"
proof -
  let ?url = "''https://newsapi.org/v2/everything?q=bitcoin&pageSize=20&page=1&apiKey=KEY&sortBy=publishedAt&language=en''"
  have c: "calls (searchHandler upstream_garbled (Query (params_for ''bitcoin'' ''1''))) = [?url]"
    using endpoint_examples(1)
    by (simp add: searchHandler_parsed Atoi_examples fetch_calls upstream_garbled_def)
  have g: "http_Get upstream_garbled ?url = Response 200 ''<html>''"
    and d: "decode_Results upstream_garbled ''<html>'' = None"
    by (simp_all add: upstream_garbled_def)
  from undecodable_results_empty_body [OF c g d] c g d show ?thesis by simp
qed

subsection \<open>The upstream call\<close>

text \<open>
  C8. Once the page has been parsed, the handler makes exactly one upstream call, a GET
  of the \<^verbatim>\<open>everything\<close> endpoint with the escaped search term, \<^verbatim>\<open>pageSize=20\<close>, the
  parsed page, the configured key, \<^verbatim>\<open>sortBy=publishedAt\<close> and \<^verbatim>\<open>language=en\<close>.
\<close>

theorem upstream_call:
  assumes "Atoi (page_param params) = Some n"
  shows "calls (searchHandler E (Query params)) =
     [''https://newsapi.org/v2/everything?q='' @ QueryEscape (Get params ''q'')
      @ ''&pageSize=20'' @ ''&page='' @ fmt_d n @ ''&apiKey='' @ apiKey E
      @ ''&sortBy=publishedAt&language=en'']"
  using assms
  by (simp add: searchHandler_parsed fetch_calls endpoint_def fmt_d_examples)

text \<open>\<^verbatim>\<open>q=bitcoin&page=2\<close> with the key \<^verbatim>\<open>KEY\<close>.\<close>

theorem upstream_call_witness:
  "Atoi (page_param (params_for ''bitcoin'' ''2'')) = Some 2
   \<and> calls (searchHandler (upstream_ok 45) (Query (params_for ''bitcoin'' ''2''))) =
       [''https://newsapi.org/v2/everything?q=bitcoin&pageSize=20&page=2&apiKey=KEY&sortBy=publishedAt&language=en'']"
proof -
  have p: "Atoi (page_param (params_for ''bitcoin'' ''2'')) = Some 2"
    by (simp add: Atoi_examples)
  from upstream_call [OF p, of "upstream_ok 45"] p show ?thesis
    by (simp add: QueryEscape_bitcoin fmt_d_examples upstream_ok_def)
qed

subsection \<open>The range of NextPage\<close>

lemma fetch_states:
  "states (fetch E s1) = [s1] \<or>
   (\<exists>res. states (fetch E s1) =
      [s1, s1\<lparr>Results := res\<rparr>, s1\<lparr>Results := res, TotalPages := total_pages res\<rparr>,
       advance (s1\<lparr>Results := res, TotalPages := total_pages res\<rparr>)])"
  by (cases "http_Get E (endpoint (apiKey E) s1)")
     (auto simp: fetch_def finish_def Let_def split: option.splits)

lemma advance_keeps_positive:
  assumes "1 \<le> sint (NextPage s)"
  shows "1 \<le> sint (NextPage (advance s))"
  using assms by (simp add: advance_NextPage)

text \<open>
  C9, as amended. The handler does not check the sign of the page it parses. From the
  assignment of the parsed page on, \<^verbatim>\<open>NextPage >= 1\<close> holds at every point of the run
  exactly when the parsed page is at least 1 (as it is when \<^verbatim>\<open>page\<close> is absent or
  empty).
\<close>

theorem nextPage_positive_iff:
  assumes "Atoi (page_param params) = Some n"
  shows "(\<forall>s \<in> set (states (searchHandler E (Query params))). 1 \<le> sint (NextPage s))
     \<longleftrightarrow> 1 \<le> sint n"
proof -
  let ?s1 = "parsed params n"
  have run: "searchHandler E (Query params) = fetch E ?s1"
    using assms by (rule searchHandler_parsed)
  consider (short) "states (fetch E ?s1) = [?s1]"
    | (full) res where "states (fetch E ?s1) =
        [?s1, ?s1\<lparr>Results := res\<rparr>, ?s1\<lparr>Results := res, TotalPages := total_pages res\<rparr>,
         advance (?s1\<lparr>Results := res, TotalPages := total_pages res\<rparr>)]"
    using fetch_states [of E ?s1] by blast
  then show ?thesis
  proof cases
    case short
    then show ?thesis by (simp add: run)
  next
    case full
    have "1 \<le> sint n \<Longrightarrow>
        1 \<le> sint (NextPage (advance (?s1\<lparr>Results := res, TotalPages := total_pages res\<rparr>)))"
      by (rule advance_keeps_positive) simp
    then show ?thesis by (auto simp: run full)
  qed
qed

text \<open>Page 2 of 3 pages: \<^verbatim>\<open>NextPage\<close> is 2, 2, 2 and then 3.\<close>

theorem nextPage_positive_iff_witness:
  "Atoi (page_param (params_for ''bitcoin'' ''2'')) = Some 2
   \<and> 1 \<le> sint (2 :: int64)
   \<and> list_all (\<lambda>s. 1 \<le> sint (NextPage s))
        (states (searchHandler (upstream_ok 60) (Query (params_for ''bitcoin'' ''2''))))
   \<and> map NextPage (states (searchHandler (upstream_ok 60) (Query (params_for ''bitcoin'' ''2''))))
       = [2, 2, 2, 3]"
proof -
  have p: "Atoi (page_param (params_for ''bitcoin'' ''2'')) = Some 2"
    by (simp add: Atoi_examples)
  have "map NextPage (states (searchHandler (upstream_ok 60) (Query (params_for ''bitcoin'' ''2''))))
      = [2, 2, 2, 3]"
    by (simp add: run_ok Atoi_examples total_pages_examples Let_def advance_def IsLastPage_sint)
  with nextPage_positive_iff [OF p, of "upstream_ok 60"] p show ?thesis
    by (simp add: list_all_iff)
qed

text \<open>
  C9 as stated fails: \<^verbatim>\<open>page=0\<close> is parsed and stored, and \<^verbatim>\<open>NextPage\<close> is 0 when the
  upstream call is made.
\<close>

theorem nextPage_zero_counterexample:
  "Atoi (page_param (params_for ''bitcoin'' ''0'')) = Some 0
   \<and> map NextPage (states (searchHandler (upstream_ok 45) (Query (params_for ''bitcoin'' ''0''))))
       = [0, 0, 0, 1]
   \<and> calls (searchHandler (upstream_ok 45) (Query (params_for ''bitcoin'' ''0''))) =
       [''https://newsapi.org/v2/everything?q=bitcoin&pageSize=20&page=0&apiKey=KEY&sortBy=publishedAt&language=en'']
   \<and> sint (0 :: int64) < 1"
  by (simp add: run_ok Atoi_examples total_pages_examples Let_def advance_def IsLastPage_sint
        endpoint_def QueryEscape_bitcoin fmt_d_examples)

end
